theory Spec2Isabelle
  imports Main
begin

section \<open>The empty-state card of the web front end\<close>

text \<open>
  The component \<^verbatim>\<open>EmptyCard\<close> of \<^verbatim>\<open>web/src/components/card/EmptyCard.tsx\<close> is a
  function from a configuration (its props) to a React element tree. The embedding
  keeps the element tree as a value: the result of the function is the tree that the
  JSX expression of the source builds.
\<close>

subsection \<open>JavaScript values that occur as React nodes\<close>

text \<open>
  An element is either a host element (\<^verbatim>\<open>div\<close>) or a component imported by the
  source (\<^verbatim>\<open>Heading\<close>, \<^verbatim>\<open>Button\<close>, \<^verbatim>\<open>Link\<close>). The attributes written in the
  source are all strings, so an element carries them as an association list in source
  order, followed by its children in source order.
\<close>

datatype elem_type = Host string | Component string

datatype jsx =
    JUndefined
  | JNull
  | JBool bool
  | JNum int
  | JStr string
  | JElem elem_type "(string \<times> string) list" "jsx list"

datatype error = TypeError

text \<open>An optional string property: absent is \<^verbatim>\<open>undefined\<close>.\<close>

fun of_opt :: "string option \<Rightarrow> jsx" where
  "of_opt None = JUndefined"
| "of_opt (Some s) = JStr s"

text \<open>JavaScript truthiness, and \<^verbatim>\<open>a && b\<close>, which yields \<^verbatim>\<open>a\<close> itself when it is falsy.\<close>

fun truthy :: "jsx \<Rightarrow> bool" where
  "truthy JUndefined = False"
| "truthy JNull = False"
| "truthy (JBool b) = b"
| "truthy (JNum n) = (n \<noteq> 0)"
| "truthy (JStr s) = (s \<noteq> [])"
| "truthy (JElem t ps cs) = True"

definition js_and :: "jsx \<Rightarrow> jsx \<Rightarrow> jsx" where
  "js_and a b = (if truthy a then b else a)"

text \<open>
  Property access \<^verbatim>\<open>v.length\<close> throws a \<^verbatim>\<open>TypeError\<close> on \<^verbatim>\<open>undefined\<close> and
  \<^verbatim>\<open>null\<close>; on a string it is the number of its characters, on the other values the
  property does not exist. The optional chain \<^verbatim>\<open>v?.length\<close> short-circuits to
  \<^verbatim>\<open>undefined\<close> where the plain access would throw.
\<close>

fun get_length :: "jsx \<Rightarrow> error + jsx" where
  "get_length JUndefined = Inl TypeError"
| "get_length JNull = Inl TypeError"
| "get_length (JStr s) = Inr (JNum (int (length s)))"
| "get_length (JBool b) = Inr JUndefined"
| "get_length (JNum n) = Inr JUndefined"
| "get_length (JElem t ps cs) = Inr JUndefined"

fun opt_get_length :: "jsx \<Rightarrow> error + jsx" where
  "opt_get_length JUndefined = Inr JUndefined"
| "opt_get_length JNull = Inr JUndefined"
| "opt_get_length v = get_length v"

text \<open>Nullish coalescing \<^verbatim>\<open>a ?? d\<close> on an optional string.\<close>

fun nullish :: "string option \<Rightarrow> string \<Rightarrow> string" where
  "nullish None d = d"
| "nullish (Some s) d = s"

subsection \<open>The configuration\<close>

record EmptyCardProps =
  className :: "string option"
  icon :: jsx
  title :: string
  description :: "string option"
  buttonText :: "string option"
  link :: "string option"

subsection \<open>The component\<close>

text \<open>
  The helper \<^verbatim>\<open>cn\<close> is imported from \<^verbatim>\<open>@/lib/utils\<close>, a module outside this
  component; it is a parameter of the embedding. It receives the base classes and
  the optional \<^verbatim>\<open>className\<close>.

  \<open>EmptyCard_body\<close> is the JSX expression of the source, given the value of the
  \<^verbatim>\<open>className\<close> attribute: the four children are the icon, the heading, the value of
  \<^verbatim>\<open>description && <div ...>\<close> and the value of \<^verbatim>\<open>buttonText?.length && <Button ...>\<close>.
\<close>

definition EmptyCard_body :: "string \<Rightarrow> EmptyCardProps \<Rightarrow> error + jsx" where
  "EmptyCard_body cls p =
     (case opt_get_length (of_opt (buttonText p)) of
        Inl e \<Rightarrow> Inl e
      | Inr len \<Rightarrow>
          Inr (JElem (Host ''div'') [(''className'', cls)]
            [ icon p,
              JElem (Component ''Heading'') [(''as'', ''h4'')] [JStr (title p)],
              js_and (of_opt (description p))
                (JElem (Host ''div'') [(''className'', ''mb-3 text-secondary-foreground'')]
                   [of_opt (description p)]),
              js_and len
                (JElem (Component ''Button'') [(''size'', ''sm''), (''variant'', ''select'')]
                   [JElem (Component ''Link'') [(''to'', nullish (link p) ''#'')]
                      [of_opt (buttonText p)]])
            ]))"

definition EmptyCard :: "(string \<Rightarrow> string option \<Rightarrow> string) \<Rightarrow> EmptyCardProps \<Rightarrow> error + jsx" where
  "EmptyCard cn p = EmptyCard_body (cn ''flex flex-col items-center gap-2'' (className p)) p"


subsection \<open>Reading the element tree\<close>

fun children_of :: "jsx \<Rightarrow> jsx list" where
  "children_of (JElem t ps cs) = cs"
| "children_of v = []"

fun attrs_of :: "jsx \<Rightarrow> (string \<times> string) list" where
  "attrs_of (JElem t ps cs) = ps"
| "attrs_of v = []"

text \<open>A node together with everything below it, in document order.\<close>

fun subnodes :: "jsx \<Rightarrow> jsx list" where
  "subnodes (JElem t ps cs) = JElem t ps cs # concat (map subnodes cs)"
| "subnodes JUndefined = [JUndefined]"
| "subnodes JNull = [JNull]"
| "subnodes (JBool b) = [JBool b]"
| "subnodes (JNum n) = [JNum n]"
| "subnodes (JStr s) = [JStr s]"

text \<open>
  The icon is handed in by the caller and passed through untouched as the first child.
  The nodes the component itself contributes are the remaining children of the
  container and what is below them.
\<close>

definition own_nodes :: "jsx \<Rightarrow> jsx list" where
  "own_nodes out = concat (map subnodes (drop 1 (children_of out)))"

text \<open>The action is a \<^verbatim>\<open>Button\<close> whose only child is a \<^verbatim>\<open>Link\<close>.\<close>

definition is_action :: "jsx \<Rightarrow> bool" where
  "is_action v =
     (case v of
        JElem (Component b) ps [JElem (Component l) qs ls] \<Rightarrow> b = ''Button'' \<and> l = ''Link''
      | _ \<Rightarrow> False)"

definition action_label :: "jsx \<Rightarrow> jsx list" where
  "action_label v = concat (map children_of (children_of v))"

definition action_target :: "jsx \<Rightarrow> string option" where
  "action_target v = map_of (concat (map attrs_of (children_of v))) ''to''"

text \<open>The description line is the \<^verbatim>\<open>div\<close> with the classes the source gives it.\<close>

definition is_description_line :: "jsx \<Rightarrow> bool" where
  "is_description_line v =
     (case v of
        JElem (Host h) ps cs \<Rightarrow>
          h = ''div'' \<and> map_of ps ''className'' = Some ''mb-3 text-secondary-foreground''
      | _ \<Rightarrow> False)"

text \<open>
  What React makes of a child value: \<^verbatim>\<open>undefined\<close>, \<^verbatim>\<open>null\<close>, booleans and the
  empty string produce no node; a number or a non-empty string produces a text node, an
  element produces itself.
\<close>

fun emits :: "jsx \<Rightarrow> bool" where
  "emits JUndefined = False"
| "emits JNull = False"
| "emits (JBool b) = False"
| "emits (JNum n) = True"
| "emits (JStr s) = (s \<noteq> [])"
| "emits (JElem t ps cs) = True"

subsection \<open>Class lists\<close>









section \<open>Properties\<close>

text \<open>
  The plain access \<^verbatim>\<open>buttonText.length\<close> would throw for an absent \<^verbatim>\<open>buttonText\<close>;
  the optional chain of the source does not.
\<close>

lemma plain_access_throws: "get_length (of_opt None) = Inl TypeError"
  by simp

lemma optional_chain_total: "\<exists>v. opt_get_length (of_opt b) = Inr v"
  by (cases b) simp_all

text \<open>
  C1. Whenever \<^verbatim>\<open>buttonText\<close> is a non-empty string, rendering succeeds and the nodes
  contributed by the component contain exactly one action element: a \<^verbatim>\<open>Button\<close>
  wrapping a \<^verbatim>\<open>Link\<close> whose label is \<^verbatim>\<open>buttonText\<close> and whose target is the supplied
  \<^verbatim>\<open>link\<close>, or \<^verbatim>\<open>#\<close> when \<^verbatim>\<open>link\<close> is absent.
\<close>

theorem action_present:
  assumes "buttonText p = Some b" and "b \<noteq> []"
  shows "\<exists>out. EmptyCard cn p = Inr out
           \<and> filter is_action (own_nodes out) =
               [JElem (Component ''Button'') [(''size'', ''sm''), (''variant'', ''select'')]
                  [JElem (Component ''Link'')
                     [(''to'', case link p of None \<Rightarrow> ''#'' | Some l \<Rightarrow> l)] [JStr b]]]
           \<and> map action_label (filter is_action (own_nodes out)) = [[JStr b]]
           \<and> map action_target (filter is_action (own_nodes out)) =
               [Some (case link p of None \<Rightarrow> ''#'' | Some l \<Rightarrow> l)]"
  using assms
  by (cases "description p"; cases "link p")
     (simp_all add: EmptyCard_def EmptyCard_body_def js_and_def own_nodes_def is_action_def
        action_label_def action_target_def)

theorem action_present_witness:
  "\<exists>out. EmptyCard (\<lambda>b c. b)
       \<lparr>className = None, icon = JNull, title = ''No items'', description = Some ''d'',
        buttonText = Some ''Add'', link = None\<rparr> = Inr out
     \<and> filter is_action (own_nodes out) =
         [JElem (Component ''Button'') [(''size'', ''sm''), (''variant'', ''select'')]
            [JElem (Component ''Link'') [(''to'', ''#'')] [JStr ''Add'']]]
     \<and> map action_label (filter is_action (own_nodes out)) = [[JStr ''Add'']]
     \<and> map action_target (filter is_action (own_nodes out)) = [Some ''#'']"
  using action_present [of "\<lparr>className = None, icon = JNull, title = ''No items'',
        description = Some ''d'', buttonText = Some ''Add'', link = None\<rparr>" "''Add''" "\<lambda>b c. b"]
  by simp

text \<open>
  C2. Whenever \<^verbatim>\<open>buttonText\<close> is absent or the empty string, rendering succeeds and
  the nodes contributed by the component contain no action element.
\<close>

theorem action_omitted:
  assumes "buttonText p = None \<or> buttonText p = Some []"
  shows "\<exists>out. EmptyCard cn p = Inr out \<and> filter is_action (own_nodes out) = []"
  using assms
  by (cases "description p")
     (auto simp add: EmptyCard_def EmptyCard_body_def js_and_def own_nodes_def is_action_def)

theorem action_omitted_witness:
  "(\<exists>out. EmptyCard (\<lambda>b c. b)
       \<lparr>className = None, icon = JNull, title = ''No items'', description = Some ''d'',
        buttonText = None, link = Some ''/new''\<rparr> = Inr out
      \<and> filter is_action (own_nodes out) = [])
   \<and> (\<exists>out. EmptyCard (\<lambda>b c. b)
       \<lparr>className = None, icon = JNull, title = ''No items'', description = Some ''d'',
        buttonText = Some [], link = Some ''/new''\<rparr> = Inr out
      \<and> filter is_action (own_nodes out) = [])"
  using
    action_omitted [of "\<lparr>className = None, icon = JNull, title = ''No items'',
        description = Some ''d'', buttonText = None, link = Some ''/new''\<rparr>" "\<lambda>b c. b"]
    action_omitted [of "\<lparr>className = None, icon = JNull, title = ''No items'',
        description = Some ''d'', buttonText = Some [], link = Some ''/new''\<rparr>" "\<lambda>b c. b"]
  by simp

text \<open>
  C3. Whenever \<^verbatim>\<open>description\<close> is absent, rendering succeeds, the position of the
  description holds \<^verbatim>\<open>undefined\<close>, and the nodes contributed by the component contain
  no description line.
\<close>

theorem description_absent_no_line:
  assumes "description p = None"
  shows "\<exists>out. EmptyCard cn p = Inr out
           \<and> children_of out ! 2 = JUndefined
           \<and> filter is_description_line (own_nodes out) = []"
  using assms
  by (cases "buttonText p")
     (auto simp add: EmptyCard_def EmptyCard_body_def js_and_def own_nodes_def
        is_description_line_def)

theorem description_absent_no_line_witness:
  "\<exists>out. EmptyCard (\<lambda>b c. b)
       \<lparr>className = None, icon = JNull, title = ''No items'', description = None,
        buttonText = Some ''Add'', link = Some ''/new''\<rparr> = Inr out
     \<and> children_of out ! 2 = JUndefined
     \<and> filter is_description_line (own_nodes out) = []"
  using description_absent_no_line [of "\<lparr>className = None, icon = JNull,
        title = ''No items'', description = None, buttonText = Some ''Add'',
        link = Some ''/new''\<rparr>" "\<lambda>b c. b"]
  by simp

text \<open>
  C4. For \<^verbatim>\<open>title = "No items"\<close> with \<^verbatim>\<open>description\<close> and \<^verbatim>\<open>buttonText\<close> absent,
  the container holds the icon, the heading and two \<^verbatim>\<open>undefined\<close> positions; what is
  rendered of its children is the icon and the heading, and nothing else.
\<close>

theorem scenario_title_only:
  assumes "title p = ''No items''" and "description p = None" and "buttonText p = None"
  shows "\<exists>out. EmptyCard cn p = Inr out
           \<and> children_of out =
               [icon p, JElem (Component ''Heading'') [(''as'', ''h4'')] [JStr ''No items''],
                JUndefined, JUndefined]
           \<and> filter emits (children_of out) =
               filter emits [icon p] @
               [JElem (Component ''Heading'') [(''as'', ''h4'')] [JStr ''No items'']]"
  using assms by (simp add: EmptyCard_def EmptyCard_body_def js_and_def)

theorem scenario_title_only_witness:
  "\<exists>out. EmptyCard (\<lambda>b c. b)
       \<lparr>className = None, icon = JElem (Host ''svg'') [] [], title = ''No items'',
        description = None, buttonText = None, link = None\<rparr> = Inr out
     \<and> children_of out =
         [JElem (Host ''svg'') [] [],
          JElem (Component ''Heading'') [(''as'', ''h4'')] [JStr ''No items''],
          JUndefined, JUndefined]
     \<and> filter emits (children_of out) =
         [JElem (Host ''svg'') [] [],
          JElem (Component ''Heading'') [(''as'', ''h4'')] [JStr ''No items'']]"
  using scenario_title_only [of "\<lparr>className = None, icon = JElem (Host ''svg'') [] [],
        title = ''No items'', description = None, buttonText = None, link = None\<rparr>"
        "\<lambda>b c. b"]
  by simp

text \<open>
  C5. For \<^verbatim>\<open>title = "No items"\<close>, \<^verbatim>\<open>description = "Add one to get started"\<close>,
  \<^verbatim>\<open>buttonText = "Add"\<close> and \<^verbatim>\<open>link = "/new"\<close>, the children of the container are,
  in this order, the icon, the heading with the title, the description line with the
  description text, and the action labelled \<^verbatim>\<open>Add\<close> with target \<^verbatim>\<open>/new\<close>.
\<close>

theorem scenario_full:
  assumes "title p = ''No items''" and "description p = Some ''Add one to get started''"
      and "buttonText p = Some ''Add''" and "link p = Some ''/new''"
  shows "\<exists>out. EmptyCard cn p = Inr out
           \<and> children_of out =
               [icon p,
                JElem (Component ''Heading'') [(''as'', ''h4'')] [JStr ''No items''],
                JElem (Host ''div'') [(''className'', ''mb-3 text-secondary-foreground'')]
                  [JStr ''Add one to get started''],
                JElem (Component ''Button'') [(''size'', ''sm''), (''variant'', ''select'')]
                  [JElem (Component ''Link'') [(''to'', ''/new'')] [JStr ''Add'']]]
           \<and> map is_description_line (children_of out) = [is_description_line (icon p), False, True, False]
           \<and> map is_action (children_of out) = [is_action (icon p), False, False, True]"
  using assms
  by (simp add: EmptyCard_def EmptyCard_body_def js_and_def is_action_def
        is_description_line_def)

theorem scenario_full_witness:
  "\<exists>out. EmptyCard (\<lambda>b c. b)
       \<lparr>className = None, icon = JElem (Host ''svg'') [] [], title = ''No items'',
        description = Some ''Add one to get started'', buttonText = Some ''Add'',
        link = Some ''/new''\<rparr> = Inr out
     \<and> children_of out =
         [JElem (Host ''svg'') [] [],
          JElem (Component ''Heading'') [(''as'', ''h4'')] [JStr ''No items''],
          JElem (Host ''div'') [(''className'', ''mb-3 text-secondary-foreground'')]
            [JStr ''Add one to get started''],
          JElem (Component ''Button'') [(''size'', ''sm''), (''variant'', ''select'')]
            [JElem (Component ''Link'') [(''to'', ''/new'')] [JStr ''Add'']]]
     \<and> map is_description_line (children_of out) = [False, False, True, False]
     \<and> map is_action (children_of out) = [False, False, False, True]"
  using scenario_full [of "\<lparr>className = None, icon = JElem (Host ''svg'') [] [],
        title = ''No items'', description = Some ''Add one to get started'',
        buttonText = Some ''Add'', link = Some ''/new''\<rparr>" "\<lambda>b c. b"]
  by (simp add: is_action_def is_description_line_def)

text \<open>
  C6. Rendering never fails: for every configuration and every class helper the result
  is an element tree, not an error, although property access as such can throw. The
  container always has four positions, and an absent \<^verbatim>\<open>description\<close> or
  \<^verbatim>\<open>buttonText\<close> leaves its position without a rendered node.
\<close>

theorem render_total:
  "\<exists>out. EmptyCard cn p = Inr out
     \<and> length (children_of out) = 4
     \<and> (description p = None \<longrightarrow> \<not> emits (children_of out ! 2))
     \<and> (buttonText p = None \<longrightarrow> \<not> emits (children_of out ! 3))"
  by (cases "buttonText p"; cases "description p")
     (simp_all add: EmptyCard_def EmptyCard_body_def js_and_def)

theorem render_total_witness:
  "\<exists>out. EmptyCard (\<lambda>b c. b)
       \<lparr>className = None, icon = JNull, title = [], description = None,
        buttonText = None, link = None\<rparr> = Inr out
     \<and> length (children_of out) = 4
     \<and> \<not> emits (children_of out ! 2)
     \<and> \<not> emits (children_of out ! 3)"
  using render_total [of "\<lambda>b c. b" "\<lparr>className = None, icon = JNull, title = [],
        description = None, buttonText = None, link = None\<rparr>"]
  by simp

text \<open>
  C8. Whenever \<^verbatim>\<open>description\<close> is the empty string, the guard yields the empty
  string itself, which renders no node, and the nodes contributed by the component
  contain no description line.
\<close>

theorem description_empty_no_line:
  assumes "description p = Some []"
  shows "\<exists>out. EmptyCard cn p = Inr out
           \<and> children_of out ! 2 = JStr []
           \<and> \<not> emits (children_of out ! 2)
           \<and> filter is_description_line (own_nodes out) = []"
  using assms
  by (cases "buttonText p")
     (auto simp add: EmptyCard_def EmptyCard_body_def js_and_def own_nodes_def
        is_description_line_def)

theorem description_empty_no_line_witness:
  "\<exists>out. EmptyCard (\<lambda>b c. b)
       \<lparr>className = None, icon = JNull, title = ''No items'', description = Some [],
        buttonText = Some ''Add'', link = Some ''/new''\<rparr> = Inr out
     \<and> children_of out ! 2 = JStr []
     \<and> \<not> emits (children_of out ! 2)
     \<and> filter is_description_line (own_nodes out) = []"
  using description_empty_no_line [of "\<lparr>className = None, icon = JNull,
        title = ''No items'', description = Some [], buttonText = Some ''Add'',
        link = Some ''/new''\<rparr>" "\<lambda>b c. b"]
  by simp

text \<open>
  C9. The guard of the action is \<^verbatim>\<open>buttonText?.length\<close>. For the empty string it is
  the number 0, which becomes the last child of the container and is rendered as a
  text node; for an absent \<^verbatim>\<open>buttonText\<close> it is \<^verbatim>\<open>undefined\<close>, and nothing is
  rendered in that position.
\<close>

theorem stray_zero:
  "(buttonText p = Some [] \<longrightarrow>
      opt_get_length (of_opt (buttonText p)) = Inr (JNum 0)
      \<and> (\<exists>out. EmptyCard cn p = Inr out
            \<and> drop 3 (children_of out) = [JNum 0]
            \<and> filter emits (drop 3 (children_of out)) = [JNum 0]))
   \<and> (buttonText p = None \<longrightarrow>
      opt_get_length (of_opt (buttonText p)) = Inr JUndefined
      \<and> (\<exists>out. EmptyCard cn p = Inr out
            \<and> drop 3 (children_of out) = [JUndefined]
            \<and> filter emits (drop 3 (children_of out)) = []))"
  by (simp add: EmptyCard_def EmptyCard_body_def js_and_def)

theorem stray_zero_witness:
  "(opt_get_length (of_opt (Some [])) = Inr (JNum 0)
    \<and> (\<exists>out. EmptyCard (\<lambda>b c. b)
          \<lparr>className = None, icon = JNull, title = ''No items'', description = None,
           buttonText = Some [], link = None\<rparr> = Inr out
        \<and> drop 3 (children_of out) = [JNum 0]
        \<and> filter emits (drop 3 (children_of out)) = [JNum 0]))
   \<and> (opt_get_length (of_opt None) = Inr JUndefined
    \<and> (\<exists>out. EmptyCard (\<lambda>b c. b)
          \<lparr>className = None, icon = JNull, title = ''No items'', description = None,
           buttonText = None, link = None\<rparr> = Inr out
        \<and> drop 3 (children_of out) = [JUndefined]
        \<and> filter emits (drop 3 (children_of out)) = []))"
  using
    stray_zero [of "\<lparr>className = None, icon = JNull, title = ''No items'',
        description = None, buttonText = Some [], link = None\<rparr>" "\<lambda>b c. b"]
    stray_zero [of "\<lparr>className = None, icon = JNull, title = ''No items'',
        description = None, buttonText = None, link = None\<rparr>" "\<lambda>b c. b"]
  by simp








end
